theory Spec2Isabelle
  imports Complex_Main
begin

section \<open>Toolpath parser (utils.py, parse\_gcode\_file)\<close>

text \<open>
  Python floats are modelled by the reals: every coordinate, E value and width the
  parser reads is a \<open>real\<close>, so rounding is outside the model and the numbers of a
  stream are finite. (The values that are not finite numbers arise in the offset
  generator, which models them.) A point \<open>[x, y, z]\<close> is a triple, a polyline a list
  of points, a layer a list of polylines and a track a list of layers.
\<close>

type_synonym point = "real \<times> real \<times> real"
type_synonym vec2 = "real \<times> real"
type_synonym polyline = "point list"
type_synonym layer = "polyline list"
type_synonym track = "layer list"

datatype error = ValueError

text \<open>
  The local variables of \<open>parse_gcode_file\<close>. \<open>core_switch_save\<close> is the list of six
  numbers \<open>[x, y, z, last_extruded_z, last_e, e_change]\<close> kept for the inactive hotend.
\<close>

record pstate =
  one_layers :: track
  two_layers :: track
  one_lines :: layer
  two_lines :: layer
  one_new_line :: polyline
  two_new_line :: polyline
  current_x :: real
  current_y :: real
  current_z :: real
  last_extruded_z :: real
  last_e :: real
  e_change :: real
  core_switch_save :: "real \<times> real \<times> real \<times> real \<times> real \<times> real"
  printing :: bool
  printcore :: int

definition initial_state :: pstate where
  "initial_state =
     \<lparr>one_layers = [], two_layers = [], one_lines = [], two_lines = [],
      one_new_line = [], two_new_line = [],
      current_x = 0, current_y = 0, current_z = 0,
      last_extruded_z = 0, last_e = 0, e_change = 0,
      core_switch_save = (0, 0, 0, 0, 0, 0),
      printing = False, printcore = 0\<rparr>"

text \<open>\<open>s.split(c)\<close> for a one-character separator: empty pieces are kept.\<close>

fun split_on :: "char \<Rightarrow> string \<Rightarrow> string list" where
  "split_on c [] = [[]]"
| "split_on c (x # xs) =
     (if x = c then [] # split_on c xs
      else (case split_on c xs of
              [] \<Rightarrow> [[x]]
            | w # ws \<Rightarrow> (x # w) # ws))"

text \<open>Lines 157-175: a \<open>T0\<close>/\<open>T1\<close> line selecting the other hotend swaps the six
  registers with \<open>core_switch_save\<close>.\<close>

definition tool_change :: "pstate \<Rightarrow> string \<Rightarrow> pstate" where
  "tool_change s line =
     (if take 2 line = ''T0'' \<or> take 2 line = ''T1'' then
        (let new_core = (if line ! 1 = CHR ''0'' then 0 else (1::int)) in
         if new_core \<noteq> printcore s then
           (case core_switch_save s of
              (sx, sy, sz, slz, sle, sec) \<Rightarrow>
                s\<lparr>printcore := new_core,
                  current_x := sx, current_y := sy, current_z := sz,
                  last_extruded_z := slz, last_e := sle, e_change := sec,
                  core_switch_save :=
                    (current_x s, current_y s, current_z s,
                     last_extruded_z s, last_e s, e_change s)\<rparr>)
         else s)
      else s)"

text \<open>
  Lines 194-214: the operand loop. \<open>fl\<close> stands for Python's builtin \<open>float\<close> on
  strings, \<open>None\<close> where it raises ValueError. The accumulator is
  \<open>(new_x, new_y, new_z, new_e)\<close>.
\<close>

fun read_parameters ::
  "(string \<Rightarrow> real option) \<Rightarrow> real \<Rightarrow> int \<Rightarrow> string list
     \<Rightarrow> real \<times> real \<times> real \<times> real \<Rightarrow> error + (real \<times> real \<times> real \<times> real)" where
  "read_parameters fl hotend_distance core [] acc = Inr acc"
| "read_parameters fl hotend_distance core (p # ps) (new_x, new_y, new_z, new_e) =
     (if p = [] then read_parameters fl hotend_distance core ps (new_x, new_y, new_z, new_e)
      else if hd p = CHR ''X'' then
        (case fl (tl p) of
           None \<Rightarrow> Inl ValueError
         | Some v \<Rightarrow>
             read_parameters fl hotend_distance core ps
               ((if core = 1 then v + hotend_distance else v), new_y, new_z, new_e))
      else if hd p = CHR ''Y'' then
        (case fl (tl p) of
           None \<Rightarrow> Inl ValueError
         | Some v \<Rightarrow> read_parameters fl hotend_distance core ps (new_x, v, new_z, new_e))
      else if hd p = CHR ''Z'' then
        (case fl (tl p) of
           None \<Rightarrow> Inl ValueError
         | Some v \<Rightarrow> read_parameters fl hotend_distance core ps (new_x, new_y, v, new_e))
      else if hd p = CHR ''E'' then
        (case fl (tl p) of
           None \<Rightarrow> Inl ValueError
         | Some v \<Rightarrow> read_parameters fl hotend_distance core ps (new_x, new_y, new_z, v))
      else read_parameters fl hotend_distance core ps (new_x, new_y, new_z, new_e))"

text \<open>Line 219: \<open>"E" in line and ("X" in line or "Y" in line or "Z" in line)\<close>.\<close>

definition mentions_extrusion :: "string \<Rightarrow> bool" where
  "mentions_extrusion line =
     (CHR ''E'' \<in> set line \<and>
      (CHR ''X'' \<in> set line \<or> CHR ''Y'' \<in> set line \<or> CHR ''Z'' \<in> set line))"

text \<open>Lines 224-228: the new value of \<open>e_change\<close> after a motion line.\<close>

definition update_e_change :: "pstate \<Rightarrow> string \<Rightarrow> real \<Rightarrow> real" where
  "update_e_change s line new_e =
     (if mentions_extrusion line then
        (let extrusion_dif = new_e - last_e s in
         if e_change s \<le> 0 then e_change s + extrusion_dif else extrusion_dif)
      else e_change s)"

text \<open>Lines 216-234: the flag \<open>did_extrude\<close> of a motion line.\<close>

definition did_extrude :: "pstate \<Rightarrow> string \<Rightarrow> real \<Rightarrow> bool" where
  "did_extrude s line new_e =
     (mentions_extrusion line \<and> update_e_change s line new_e > 0)"

text \<open>Lines 236-250: an extruding move records its point, after closing the layer when
  the height changed.\<close>

definition extrude_point :: "pstate \<Rightarrow> point \<Rightarrow> pstate" where
  "extrude_point s p =
     (let new_z = snd (snd p);
          s1 = (if new_z \<noteq> last_extruded_z s then
                  (if printcore s = 0 then
                     s\<lparr>one_layers := one_layers s @ [one_lines s],
                       one_lines := [], one_new_line := []\<rparr>
                   else
                     s\<lparr>two_layers := two_layers s @ [two_lines s],
                       two_lines := [], two_new_line := []\<rparr>)
                else s);
          s2 = (if printcore s1 = 0 then s1\<lparr>one_new_line := one_new_line s1 @ [p]\<rparr>
                else s1\<lparr>two_new_line := two_new_line s1 @ [p]\<rparr>)
      in s2\<lparr>last_extruded_z := new_z\<rparr>)"

text \<open>Lines 253-263: a move that does not extrude commits the open polyline when it has
  more than one point and starts a new one at the target.\<close>

definition travel_point :: "pstate \<Rightarrow> point \<Rightarrow> pstate" where
  "travel_point s p =
     (if printcore s = 0 then
        s\<lparr>one_lines := (if length (one_new_line s) > 1
                         then one_lines s @ [one_new_line s] else one_lines s),
          one_new_line := [p]\<rparr>
      else
        s\<lparr>two_lines := (if length (two_new_line s) > 1
                         then two_lines s @ [two_new_line s] else two_lines s),
          two_new_line := [p]\<rparr>)"

text \<open>Lines 216-267: what a motion line does once its operands are read.\<close>

definition record_move :: "pstate \<Rightarrow> string \<Rightarrow> real \<Rightarrow> real \<Rightarrow> real \<Rightarrow> real \<Rightarrow> pstate" where
  "record_move s line new_x new_y new_z new_e =
     (let s1 = s\<lparr>e_change := update_e_change s line new_e\<rparr>;
          s2 = (if did_extrude s line new_e then extrude_point s1 (new_x, new_y, new_z)
                else travel_point s1 (new_x, new_y, new_z))
      in s2\<lparr>current_x := new_x, current_y := new_y, current_z := new_z\<rparr>)"

text \<open>Lines 184-267: a \<open>G0\<close>/\<open>G1\<close> line while printing.\<close>

definition motion ::
  "(string \<Rightarrow> real option) \<Rightarrow> real \<Rightarrow> pstate \<Rightarrow> string \<Rightarrow> error + pstate" where
  "motion fl hotend_distance s line =
     (case read_parameters fl hotend_distance (printcore s) (drop 1 (split_on CHR '' '' line))
             (current_x s, current_y s, current_z s, last_e s) of
        Inl e \<Rightarrow> Inl e
      | Inr (new_x, new_y, new_z, new_e) \<Rightarrow> Inr (record_move s line new_x new_y new_z new_e))"

text \<open>Lines 151-180: comment stripping is \<open>line.split(";")[0]\<close>; then the tool change
  and the \<open>M205\<close> marker.\<close>

definition strip_comment :: "string \<Rightarrow> string" where
  "strip_comment raw = takeWhile (\<lambda>c. c \<noteq> CHR '';'') raw"

definition before_motion :: "pstate \<Rightarrow> string \<Rightarrow> pstate" where
  "before_motion s line =
     (let s1 = tool_change s line in
      if take 4 line = ''M205'' then s1\<lparr>printing := True\<rparr> else s1)"

definition is_motion :: "string \<Rightarrow> bool" where
  "is_motion line = (take 2 line = ''G0'' \<or> take 2 line = ''G1'')"

text \<open>One iteration of the loop over the lines of the file (lines 148-267).\<close>

definition step ::
  "(string \<Rightarrow> real option) \<Rightarrow> real \<Rightarrow> pstate \<Rightarrow> string \<Rightarrow> error + pstate" where
  "step fl hotend_distance s raw =
     (let line = strip_comment raw in
      if line = [] then Inr s
      else
        (let s1 = before_motion s line in
         if printing s1 \<and> is_motion line then motion fl hotend_distance s1 line
         else Inr s1))"

fun run ::
  "(string \<Rightarrow> real option) \<Rightarrow> real \<Rightarrow> pstate \<Rightarrow> string list \<Rightarrow> error + pstate" where
  "run fl hotend_distance s [] = Inr s"
| "run fl hotend_distance s (raw # rest) =
     (case step fl hotend_distance s raw of
        Inl e \<Rightarrow> Inl e
      | Inr s' \<Rightarrow> run fl hotend_distance s' rest)"

text \<open>The whole function on the lines the file yields; lines 271-276 drop the first
  layer of each track and return both.\<close>

definition parse_gcode_file ::
  "(string \<Rightarrow> real option) \<Rightarrow> string list \<Rightarrow> real \<Rightarrow> error + (track \<times> track)" where
  "parse_gcode_file fl lines hotend_distance =
     (case run fl hotend_distance initial_state lines of
        Inl e \<Rightarrow> Inl e
      | Inr s \<Rightarrow> Inr (drop 1 (one_layers s), drop 1 (two_layers s)))"

text \<open>
  The flag \<open>did_extrude\<close> (line 253) of every motion line the loop processes, in order:
  the local of the source made observable.
\<close>

definition move_flag ::
  "(string \<Rightarrow> real option) \<Rightarrow> real \<Rightarrow> pstate \<Rightarrow> string \<Rightarrow> bool list" where
  "move_flag fl hotend_distance s raw =
     (let line = strip_comment raw; s1 = before_motion s line in
      if line \<noteq> [] \<and> printing s1 \<and> is_motion line then
        (case read_parameters fl hotend_distance (printcore s1)
                (drop 1 (split_on CHR '' '' line))
                (current_x s1, current_y s1, current_z s1, last_e s1) of
           Inl e \<Rightarrow> []
         | Inr (new_x, new_y, new_z, new_e) \<Rightarrow> [did_extrude s1 line new_e])
      else [])"

fun extrusion_flags ::
  "(string \<Rightarrow> real option) \<Rightarrow> real \<Rightarrow> pstate \<Rightarrow> string list \<Rightarrow> error + bool list" where
  "extrusion_flags fl hotend_distance s [] = Inr []"
| "extrusion_flags fl hotend_distance s (raw # rest) =
     (case step fl hotend_distance s raw of
        Inl e \<Rightarrow> Inl e
      | Inr s' \<Rightarrow>
          (case extrusion_flags fl hotend_distance s' rest of
             Inl e \<Rightarrow> Inl e
           | Inr fs \<Rightarrow> Inr (move_flag fl hotend_distance s raw @ fs)))"

text \<open>
  The bookkeeping as the specification words it (section 4.1, step 5), for comparison
  with the code: \<open>delta_e\<close> is the difference to the E value of the preceding command.
  The arguments are that E value, the balance and the E operands of the moves to come.
\<close>

fun spec_extrusion_flags :: "real \<Rightarrow> real \<Rightarrow> real list \<Rightarrow> bool list" where
  "spec_extrusion_flags previous_e balance [] = []"
| "spec_extrusion_flags previous_e balance (new_e # rest) =
     (let delta_e = new_e - previous_e;
          balance' = (if balance \<le> 0 then balance + delta_e else delta_e)
      in (balance' > 0) # spec_extrusion_flags new_e balance' rest)"

text \<open>The six registers a tool change saves (\<open>current_values\<close>, line 168).\<close>

definition current_values :: "pstate \<Rightarrow> real \<times> real \<times> real \<times> real \<times> real \<times> real" where
  "current_values s =
     (current_x s, current_y s, current_z s, last_extruded_z s, last_e s, e_change s)"

text \<open>An operand of a motion line that \<open>float\<close> rejects: a non-empty piece after the
  command that starts with X, Y, Z or E and whose rest \<open>fl\<close> does not read.\<close>

definition malformed_operand :: "(string \<Rightarrow> real option) \<Rightarrow> string \<Rightarrow> bool" where
  "malformed_operand fl line =
     (\<exists>p \<in> set (drop 1 (split_on CHR '' '' line)).
        p \<noteq> [] \<and> hd p \<in> {CHR ''X'', CHR ''Y'', CHR ''Z'', CHR ''E''} \<and> fl (tl p) = None)"

text \<open>The stored polylines of a parser state: those committed to the two layers under
  construction and to the layers already closed.\<close>

definition long_enough :: "polyline \<Rightarrow> bool" where
  "long_enough pl = (2 \<le> length pl)"

definition stored_ok :: "pstate \<Rightarrow> bool" where
  "stored_ok s =
     (list_all long_enough (one_lines s) \<and> list_all long_enough (two_lines s) \<and>
      list_all (list_all long_enough) (one_layers s) \<and>
      list_all (list_all long_enough) (two_layers s))"

subsection \<open>Decimal literals\<close>

text \<open>
  The parser takes Python's \<open>float\<close> as the parameter \<open>fl\<close>. To run it on concrete
  streams, \<open>float_dec\<close> reads what \<open>float\<close> reads on plain decimal literals: surrounding
  whitespace is dropped, then an optional sign, digits and an optional fraction. It is
  applied below to such literals only (exponents, \<open>inf\<close> and \<open>nan\<close> are not covered).
\<close>

definition is_space :: "char \<Rightarrow> bool" where
  "is_space c = (c \<in> set [CHR '' '', CHR 0x09, CHR 0x0A, CHR 0x0B, CHR 0x0C, CHR 0x0D])"

definition strip :: "string \<Rightarrow> string" where
  "strip s = rev (dropWhile is_space (rev (dropWhile is_space s)))"

definition is_digit :: "char \<Rightarrow> bool" where
  "is_digit c = (48 \<le> (of_char c :: nat) \<and> (of_char c :: nat) \<le> 57)"

fun digits_value :: "nat \<Rightarrow> string \<Rightarrow> nat" where
  "digits_value acc [] = acc"
| "digits_value acc (c # cs) = digits_value (10 * acc + (of_char c - 48)) cs"

definition unsigned_dec :: "string \<Rightarrow> real option" where
  "unsigned_dec s =
     (let ip = takeWhile is_digit s; rest = dropWhile is_digit s in
      if rest = [] then (if ip = [] then None else Some (real (digits_value 0 ip)))
      else if hd rest = CHR ''.'' \<and> list_all is_digit (tl rest) \<and> (ip \<noteq> [] \<or> tl rest \<noteq> [])
      then Some (real (digits_value 0 ip)
                 + real (digits_value 0 (tl rest)) / 10 ^ length (tl rest))
      else None)"

definition float_dec :: "string \<Rightarrow> real option" where
  "float_dec s =
     (case strip s of
        [] \<Rightarrow> None
      | c # cs \<Rightarrow>
          if c = CHR ''-'' then map_option uminus (unsigned_dec cs)
          else if c = CHR ''+'' then unsigned_dec cs
          else unsigned_dec (c # cs))"

text \<open>Streams used to run the parser: each string is one line as the file yields it.\<close>

definition end_to_end_stream :: "string list" where
  "end_to_end_stream =
     [''M205\<newline>'', ''G1 X10 Y0 Z0.2 E1\<newline>'', ''G1 X10 Y10 Z0.2 E2\<newline>'',
      ''G0 X0 Y0 Z0.2\<newline>'']"

definition two_layer_stream :: "string list" where
  "two_layer_stream = end_to_end_stream @ [''G1 X5 Y5 Z0.4 E3\<newline>'']"

definition retraction_stream :: "string list" where
  "retraction_stream =
     [''M205\<newline>'', ''G1 X1 E1\<newline>'', ''G1 X2 E-2\<newline>'', ''G1 X3 E-1\<newline>'',
      ''G1 X4 E0\<newline>'', ''G1 X5 E2\<newline>'']"

text \<open>The parser state after the first three lines of \<open>end_to_end_stream\<close>: the open
  polyline holds two points.\<close>

definition open_polyline_state :: pstate where
  "open_polyline_state =
     \<lparr>one_layers = [[]], two_layers = [], one_lines = [], two_lines = [],
      one_new_line = [(10, 0, 1 / 5), (10, 10, 1 / 5)], two_new_line = [],
      current_x = 10, current_y = 10, current_z = 1 / 5,
      last_extruded_z = 1 / 5, last_e = 0, e_change = 2,
      core_switch_save = (0, 0, 0, 0, 0, 0),
      printing = True, printcore = 0\<rparr>"

section \<open>Cross-section offsets (utils.py, get\_corner\_normals)\<close>

text \<open>
  The input points are finite numbers. A division by a zero magnitude does not raise in
  numpy: it warns and yields nan, inf or -inf, and every number computed from one of
  these is again not finite. A computed coordinate is therefore an \<open>fnum\<close>: \<open>Some r\<close>
  for a finite value, \<open>None\<close> for nan, inf and -inf. A boundary point \<open>[x, y, z]\<close> of the
  generator has computed x and y and the z of its input point.
\<close>

type_synonym fnum = "real option"
type_synonym fvec2 = "fnum \<times> fnum"
type_synonym bpoint = "fnum \<times> fnum \<times> real"

definition px :: "point \<Rightarrow> real" where "px p = fst p"
definition py :: "point \<Rightarrow> real" where "py p = fst (snd p)"
definition pz :: "point \<Rightarrow> real" where "pz p = snd (snd p)"

definition bz :: "bpoint \<Rightarrow> real" where "bz p = snd (snd p)"

text \<open>
  The rotation is exact: \<open>cos (pi / 2) = 0\<close>, where \<open>np.cos(np.pi/2)\<close> is 6.1e-17.
  The computed components differ from the exact ones by rounding of that order. At an
  exact reversal (the points before and after coincide) the difference can decide the
  test of line 84 the other way; what is proved about the offsets below states only
  what holds on both branches there.
\<close>

definition rotate_vector :: "vec2 \<Rightarrow> real \<Rightarrow> vec2" where
  "rotate_vector v angle =
     (fst v * cos angle - snd v * sin angle, fst v * sin angle + snd v * cos angle)"

text \<open>The quotient of two finite numbers as numpy computes it.\<close>

definition float_div :: "real \<Rightarrow> real \<Rightarrow> fnum" where
  "float_div x y = (if y = 0 then None else Some (x / y))"

definition scale_vector :: "vec2 \<Rightarrow> real \<Rightarrow> fvec2" where
  "scale_vector v len =
     (let mag = sqrt ((fst v)\<^sup>2 + (snd v)\<^sup>2)
      in (map_option (\<lambda>q. len * q) (float_div (fst v) mag),
          map_option (\<lambda>q. len * q) (float_div (snd v) mag)))"

definition add_vector_bi :: "fvec2 \<Rightarrow> point \<Rightarrow> bpoint \<times> bpoint" where
  "add_vector_bi v p =
     ((map_option (\<lambda>c. px p + c) (fst v), map_option (\<lambda>c. py p + c) (snd v), pz p),
      (map_option (\<lambda>c. px p - c) (fst v), map_option (\<lambda>c. py p - c) (snd v), pz p))"

text \<open>Lines 54-73: the two rotated difference vectors at interior point \<open>i\<close>.\<close>

definition last_normal_at :: "polyline \<Rightarrow> nat \<Rightarrow> vec2" where
  "last_normal_at line i =
     (let last_point = line ! (i - 1); current_point = line ! i;
          last_dif = (px current_point - px last_point, py current_point - py last_point)
      in rotate_vector last_dif (pi / 2))"

definition next_normal_at :: "polyline \<Rightarrow> nat \<Rightarrow> vec2" where
  "next_normal_at line i =
     (let current_point = line ! i; next_point = line ! (i + 1);
          next_dif = (px current_point - px next_point, py current_point - py next_point)
      in rotate_vector next_dif (- pi / 2))"

text \<open>Line 84: the exact-equality test.\<close>

definition exact_negatives :: "vec2 \<Rightarrow> vec2 \<Rightarrow> bool" where
  "exact_negatives last_normal next_normal =
     (fst last_normal = fst next_normal * - 1 \<and> snd last_normal = snd next_normal * - 1)"

text \<open>Lines 84-87: the normal before it is scaled.\<close>

definition combined_normal :: "polyline \<Rightarrow> nat \<Rightarrow> vec2" where
  "combined_normal line i =
     (let last_normal = last_normal_at line i; next_normal = next_normal_at line i in
      if exact_negatives last_normal next_normal then last_normal
      else (fst last_normal + fst next_normal, snd last_normal + snd next_normal))"

text \<open>Line 90: the divisor of the normalisation.\<close>

definition interior_magnitude :: "polyline \<Rightarrow> nat \<Rightarrow> real" where
  "interior_magnitude line i =
     (let normal = combined_normal line i in sqrt ((fst normal)\<^sup>2 + (snd normal)\<^sup>2))"

text \<open>Line 91.\<close>

definition corner_normal :: "polyline \<Rightarrow> real \<Rightarrow> nat \<Rightarrow> fvec2" where
  "corner_normal line width i =
     (let normal = combined_normal line i; magnitude = interior_magnitude line i
      in (map_option (\<lambda>q. q * width) (float_div (fst normal) magnitude),
          map_option (\<lambda>q. q * width) (float_div (snd normal) magnitude)))"

text \<open>Lines 47 and 100: the normals of the two end points.\<close>

definition first_normal :: "polyline \<Rightarrow> real \<Rightarrow> fvec2" where
  "first_normal line width =
     scale_vector
       (rotate_vector (px (line ! 1) - px (line ! 0), py (line ! 1) - py (line ! 0)) (pi / 2))
       width"

definition end_normal :: "polyline \<Rightarrow> real \<Rightarrow> fvec2" where
  "end_normal line width =
     scale_vector
       (rotate_vector
          (px (last line) - px (line ! (length line - 2)),
           py (last line) - py (line ! (length line - 2))) (pi / 2))
       width"

definition corner_points :: "polyline \<Rightarrow> real \<Rightarrow> nat \<Rightarrow> bpoint list" where
  "corner_points line width i =
     (let cp = add_vector_bi (corner_normal line width i) (line ! i) in [fst cp, snd cp])"

definition get_corner_normals :: "polyline \<Rightarrow> real \<Rightarrow> bpoint list" where
  "get_corner_normals line line_width =
     (let width = line_width in
      if length line > 1 then
        (let start_points = add_vector_bi (first_normal line width) (line ! 0);
             end_points = add_vector_bi (end_normal line width) (last line)
         in [fst start_points, snd start_points]
            @ concat (map (corner_points line width) [1..<length line - 1])
            @ [fst end_points, snd end_points])
      else [])"

text \<open>
  The offsets as the specification words them (section 4.2), for comparison with the
  generator. \<open>spec_normal d w\<close> is the direction \<open>d\<close> rotated by 90 degrees and scaled
  to length \<open>w\<close>; a zero-length direction has no such normal. \<open>offset_plus\<close> and
  \<open>offset_minus\<close> move a point by plus and by minus a normal in x and y and keep its z.
\<close>

definition xy :: "point \<Rightarrow> vec2" where
  "xy p = (px p, py p)"

definition xy_diff :: "point \<Rightarrow> point \<Rightarrow> vec2" where
  "xy_diff p q = (px p - px q, py p - py q)"




section \<open>Ribbon mesh (utils.py, build\_mesh\_from\_points)\<close>

text \<open>Lines 297-307: the while loop, eight triangles per round.\<close>

function mesh_loop :: "int \<Rightarrow> int \<Rightarrow> int list list \<Rightarrow> int list list" where
  "mesh_loop i point_count indices =
     (if i < point_count - 2 then
        mesh_loop (i + 2) point_count
          (indices
           @ [[i, i + 1, i + 3], [i, i + 3, i + 2]]
           @ [[point_count + i, point_count + i + 3, point_count + i + 1],
              [point_count + i, point_count + i + 2, point_count + i + 3]]
           @ [[i, i + 2, i + point_count], [i + 2, i + 2 + point_count, i + point_count]]
           @ [[i + 1, i + 1 + point_count, i + 3],
              [i + 3, i + 1 + point_count, i + 3 + point_count]])
      else indices)"
  by pat_completeness auto
termination
  by (relation "measure (\<lambda>(i, point_count, indices). nat (point_count - 2 - i))") auto

declare mesh_loop.simps [simp del]

definition raise_point :: "real \<Rightarrow> bpoint \<Rightarrow> bpoint" where
  "raise_point line_height p =
     (map_option (\<lambda>c. c + 0) (fst p), map_option (\<lambda>c. c + 0) (fst (snd p)),
      bz p + line_height)"

text \<open>
  \<open>np.array(points) + np.array([0,0,line_height])\<close> raises ValueError on an empty list
  (shapes (0,) and (3,) do not broadcast). The returned vertex list is \<open>points\<close> itself,
  extended in place.
\<close>

definition build_mesh_from_points ::
  "bpoint list \<Rightarrow> real \<Rightarrow> error + (bpoint list \<times> int list list)" where
  "build_mesh_from_points points line_height =
     (if points = [] then Inl ValueError
      else
        (let point_count = int (length points);
             second_layer = map (raise_point line_height) points;
             indices =
               [[0, point_count + 1, 1], [0, point_count, point_count + 1]]
               @ [[point_count - 2, point_count - 1, (point_count * 2) - 1],
                  [point_count - 2, (point_count * 2) - 1, (point_count * 2) - 2]]
         in Inr (points @ second_layer, mesh_loop 0 point_count indices)))"

text \<open>A ribbon of two boundary pairs: the offsets of the segment from (0,0,0) to (1,0,0)
  at width 0.2, and the triangles the extruder builds on it.\<close>

definition unit_ribbon :: "bpoint list" where
  "unit_ribbon =
     [(Some 0, Some (1 / 5), 0), (Some 0, Some (- 1 / 5), 0),
      (Some 1, Some (1 / 5), 0), (Some 1, Some (- 1 / 5), 0)]"

definition unit_ribbon_triangles :: "int list list" where
  "unit_ribbon_triangles =
     [[0, 5, 1], [0, 4, 5], [2, 3, 7], [2, 7, 6],
      [0, 1, 3], [0, 3, 2], [4, 7, 5], [4, 6, 7],
      [0, 2, 4], [2, 6, 4], [1, 5, 3], [3, 5, 7]]"

section \<open>Object mesh (watchdog.py, build\_object\_mesh)\<close>

text \<open>The fields the constructor sets from its arguments.\<close>

record watchdog =
  camera_pos :: "real list"
  camera_rot :: "real list"
  camera_fov :: real
  aspect_ratio :: real
  nozzle_width :: real
  main_color :: "real list"
  secondary_color :: "real list"

text \<open>\<open>xs[:k]\<close>: a negative \<open>k\<close> counts from the end.\<close>

definition slice_to :: "'a list \<Rightarrow> int \<Rightarrow> 'a list" where
  "slice_to xs k = (if 0 \<le> k then take (nat k) xs else take (nat (int (length xs) + k)) xs)"

text \<open>Lines 64-70 (and 77-83): the loop over the lines of one layer; the accumulator is
  \<open>(vertices, indices)\<close>.\<close>

fun add_lines ::
  "polyline list \<Rightarrow> bpoint list \<times> int list list
     \<Rightarrow> error + (bpoint list \<times> int list list)" where
  "add_lines [] acc = Inr acc"
| "add_lines (line # rest) (vertices, indices) =
     (if length line > 1 then
        (let normal_points = get_corner_normals line 0.2 in
         case build_mesh_from_points normal_points 0.2 of
           Inl e \<Rightarrow> Inl e
         | Inr (new_vertices, new_indices) \<Rightarrow>
             add_lines rest
               (vertices @ new_vertices,
                indices @ map (map (\<lambda>k. k + int (length vertices))) new_indices))
      else add_lines rest (vertices, indices))"

fun add_layers ::
  "layer list \<Rightarrow> bpoint list \<times> int list list
     \<Rightarrow> error + (bpoint list \<times> int list list)" where
  "add_layers [] acc = Inr acc"
| "add_layers (layer # rest) acc =
     (case add_lines layer acc of
        Inl e \<Rightarrow> Inl e
      | Inr acc' \<Rightarrow> add_layers rest acc')"

text \<open>The result is the triple handed to \<open>trimesh.Trimesh\<close>: vertices, faces and
  vertex colours.\<close>

definition build_object_mesh ::
  "watchdog \<Rightarrow> track \<Rightarrow> track \<Rightarrow> int
     \<Rightarrow> error + (bpoint list \<times> int list list \<times> real list list)" where
  "build_object_mesh self main_layers secondary_layers height =
     (case (if main_layers \<noteq> [] then add_layers (slice_to main_layers height) ([], [])
            else Inr ([], [])) of
        Inl e \<Rightarrow> Inl e
      | Inr (vertices1, indices1) \<Rightarrow>
          (let main_object_vertices = length vertices1 in
           case (if secondary_layers \<noteq> []
                 then add_layers (slice_to secondary_layers height) (vertices1, indices1)
                 else Inr (vertices1, indices1)) of
             Inl e \<Rightarrow> Inl e
           | Inr (vertices, indices) \<Rightarrow>
               (let secondary_vertices = length vertices - main_object_vertices;
                    colors = replicate main_object_vertices (main_color self)
                             @ replicate secondary_vertices (secondary_color self)
                in Inr (vertices, indices, colors))))"



definition triple_point :: polyline where
  "triple_point = [(5, 5, 1 / 5), (5, 5, 1 / 5), (5, 5, 1 / 5)]"

definition wide_nozzle_dog :: watchdog where
  "wide_nozzle_dog =
     \<lparr>camera_pos = [273.7, - 5, 15], camera_rot = [1.123, 0.05, 0.85],
      camera_fov = pi / 3, aspect_ratio = 1, nozzle_width = 0.8,
      main_color = [0, 0, 1], secondary_color = [0.87, 0.84, 0.67]\<rparr>"

section \<open>Properties of the parser\<close>

lemma run_append:
  "run fl h s (xs @ ys) =
     (case run fl h s xs of Inl e \<Rightarrow> Inl e | Inr s' \<Rightarrow> run fl h s' ys)"
  by (induction xs arbitrary: s) (auto split: sum.splits)

lemma take2_eq:
  assumes "take 2 line = [a, b]"
  shows "\<exists>rest. line = a # b # rest"
proof (cases line)
  case Nil with assms show ?thesis by simp
next
  case (Cons x xs)
  show ?thesis
  proof (cases xs)
    case Nil with \<open>line = x # xs\<close> assms show ?thesis by (simp add: numeral_2_eq_2)
  next
    case (Cons y ys)
    with \<open>line = x # xs\<close> assms show ?thesis by (simp add: numeral_2_eq_2)
  qed
qed

lemma tool_line_shape:
  assumes "take 2 line = ''T0'' \<or> take 2 line = ''T1''"
  shows "\<exists>c rest. line = CHR ''T'' # c # rest"
  using assms
proof
  assume "take 2 line = ''T0''"
  from take2_eq[OF this] obtain rest where "line = CHR ''T'' # CHR ''0'' # rest" ..
  then show ?thesis by (intro exI)
next
  assume "take 2 line = ''T1''"
  from take2_eq[OF this] obtain rest where "line = CHR ''T'' # CHR ''1'' # rest" ..
  then show ?thesis by (intro exI)
qed

lemma tool_line_step:
  assumes "take 2 (strip_comment raw) = ''T0'' \<or> take 2 (strip_comment raw) = ''T1''"
  shows "step fl h s raw = Inr (tool_change s (strip_comment raw))"
proof -
  from tool_line_shape[OF assms] obtain c rest where l: "strip_comment raw = CHR ''T'' # c # rest"
    by auto
  have nm: "\<not> is_motion (strip_comment raw)" by (simp add: l is_motion_def)
  have n4: "take 4 (strip_comment raw) \<noteq> ''M205''" by (simp add: l)
  have ne: "strip_comment raw \<noteq> []" by (simp add: l)
  show ?thesis
    unfolding step_def Let_def before_motion_def using nm n4 ne by simp
qed

lemma tool_change_other:
  assumes t: "take 2 line = (if printcore s = 0 then ''T1'' else ''T0'')"
    and pc: "printcore s = 0 \<or> printcore s = 1"
  shows "tool_change s line =
     s\<lparr>printcore := 1 - printcore s,
       current_x := fst (core_switch_save s),
       current_y := fst (snd (core_switch_save s)),
       current_z := fst (snd (snd (core_switch_save s))),
       last_extruded_z := fst (snd (snd (snd (core_switch_save s)))),
       last_e := fst (snd (snd (snd (snd (core_switch_save s))))),
       e_change := snd (snd (snd (snd (snd (core_switch_save s))))),
       core_switch_save := current_values s\<rparr>"
proof (cases "printcore s = 0")
  case True
  with t have "take 2 line = ''T1''" by simp
  from take2_eq[OF this] obtain rest where "line = CHR ''T'' # CHR ''1'' # rest" ..
  with True show ?thesis
    by (simp add: tool_change_def current_values_def split: prod.splits)
next
  case False
  with pc have one: "printcore s = 1" by simp
  with t have "take 2 line = ''T0''" by simp
  from take2_eq[OF this] obtain rest where "line = CHR ''T'' # CHR ''0'' # rest" ..
  with one show ?thesis
    by (simp add: tool_change_def current_values_def split: prod.splits)
qed

text \<open>
  Claim C6. A \<open>T0\<close>/\<open>T1\<close> line that selects the other hotend exchanges all six
  registers (x, y, z, last extruded z, last E, extrusion balance) with the saved slot;
  selecting the other hotend and then the first one again, with nothing in between,
  gives back the whole parser state, so every register of the active state is restored.
\<close>

theorem tool_change_round_trip:
  assumes "(printcore s = 0 \<and> take 2 (strip_comment l1) = ''T1'' \<and> take 2 (strip_comment l2) = ''T0'')
         \<or> (printcore s = 1 \<and> take 2 (strip_comment l1) = ''T0'' \<and> take 2 (strip_comment l2) = ''T1'')"
  shows "\<exists>s1. step fl h s l1 = Inr s1
            \<and> current_values s1 = core_switch_save s
            \<and> core_switch_save s1 = current_values s
            \<and> printcore s1 = 1 - printcore s
            \<and> step fl h s1 l2 = Inr s"
proof -
  let ?s1 = "tool_change s (strip_comment l1)"
  have pc: "printcore s = 0 \<or> printcore s = 1" using assms by blast
  have t1: "take 2 (strip_comment l1) = (if printcore s = 0 then ''T1'' else ''T0'')"
    using assms by (elim disjE conjE) simp_all
  have a: "step fl h s l1 = Inr ?s1"
    using assms by (intro tool_line_step) blast
  note e1 = tool_change_other[OF t1 pc]
  have b1: "current_values ?s1 = core_switch_save s" by (simp add: e1 current_values_def)
  have b2: "core_switch_save ?s1 = current_values s" by (simp add: e1)
  have b3: "printcore ?s1 = 1 - printcore s" by (simp add: e1)
  have pc2: "printcore ?s1 = 0 \<or> printcore ?s1 = 1" using pc b3 by auto
  have t2: "take 2 (strip_comment l2) = (if printcore ?s1 = 0 then ''T1'' else ''T0'')"
    unfolding b3 using assms by (elim disjE conjE) simp_all
  have c: "step fl h ?s1 l2 = Inr (tool_change ?s1 (strip_comment l2))"
    using assms by (intro tool_line_step) blast
  have d: "tool_change ?s1 (strip_comment l2) = s"
    unfolding tool_change_other[OF t2 pc2] using pc
    by (auto simp add: e1 current_values_def)
  have e: "step fl h ?s1 l2 = Inr s" using c d by simp
  show ?thesis
    by (rule exI[of _ ?s1]) (intro conjI a b1 b2 b3 e)
qed

theorem tool_change_round_trip_witness:
  "\<exists>s1. step float_dec 0
          (initial_state\<lparr>current_x := 1, current_y := 2, current_z := 3,
             last_extruded_z := 3, last_e := 5, e_change := - 1, printing := True\<rparr>)
          ''T1\<newline>'' = Inr s1
     \<and> current_values s1 = (0, 0, 0, 0, 0, 0)
     \<and> core_switch_save s1 = (1, 2, 3, 3, 5, - 1)
     \<and> printcore s1 = 1
     \<and> step float_dec 0 s1 ''T0\<newline>''
         = Inr (initial_state\<lparr>current_x := 1, current_y := 2, current_z := 3,
             last_extruded_z := 3, last_e := 5, e_change := - 1, printing := True\<rparr>)"
  using tool_change_round_trip
    [of "initial_state\<lparr>current_x := 1, current_y := 2, current_z := 3,
           last_extruded_z := 3, last_e := 5, e_change := - 1, printing := True\<rparr>"
        "''T1\<newline>''" "''T0\<newline>''" float_dec 0]
  by (simp add: initial_state_def strip_comment_def current_values_def)

lemma stored_ok_initial: "stored_ok initial_state"
  by (simp add: stored_ok_def initial_state_def)

lemma stored_ok_tool_change: "stored_ok s \<Longrightarrow> stored_ok (tool_change s line)"
  by (simp add: stored_ok_def tool_change_def Let_def split: prod.splits)

lemma stored_ok_before_motion: "stored_ok s \<Longrightarrow> stored_ok (before_motion s line)"
  using stored_ok_tool_change[of s line]
  by (simp add: before_motion_def Let_def stored_ok_def)

lemma stored_ok_extrude_point: "stored_ok s \<Longrightarrow> stored_ok (extrude_point s p)"
  by (simp add: stored_ok_def extrude_point_def Let_def)

lemma stored_ok_travel_point: "stored_ok s \<Longrightarrow> stored_ok (travel_point s p)"
  by (simp add: stored_ok_def travel_point_def long_enough_def)

lemma stored_ok_e_change: "stored_ok (s\<lparr>e_change := v\<rparr>) = stored_ok s"
  by (simp add: stored_ok_def)

lemma stored_ok_position:
  "stored_ok (s\<lparr>current_x := a, current_y := b, current_z := c\<rparr>) = stored_ok s"
  by (simp add: stored_ok_def)

lemma stored_ok_record_move:
  "stored_ok s \<Longrightarrow> stored_ok (record_move s line new_x new_y new_z new_e)"
  unfolding record_move_def Let_def stored_ok_position
  by (simp add: stored_ok_extrude_point stored_ok_travel_point stored_ok_e_change)

lemma stored_ok_motion:
  "stored_ok s \<Longrightarrow> motion fl h s line = Inr s' \<Longrightarrow> stored_ok s'"
  by (auto simp: motion_def stored_ok_record_move split: sum.splits prod.splits)

lemma stored_ok_step:
  "stored_ok s \<Longrightarrow> step fl h s raw = Inr s' \<Longrightarrow> stored_ok s'"
  unfolding step_def Let_def
  by (auto split: if_splits dest: stored_ok_motion[OF stored_ok_before_motion] 
      simp: stored_ok_before_motion)

lemma stored_ok_run:
  "stored_ok s \<Longrightarrow> run fl h s lines = Inr s' \<Longrightarrow> stored_ok s'"
proof (induction lines arbitrary: s)
  case Nil
  then show ?case by simp
next
  case (Cons raw rest)
  then show ?case
    by (auto split: sum.splits dest: stored_ok_step)
qed

lemma list_all_drop: "list_all P xs \<Longrightarrow> list_all P (drop n xs)"
  by (simp add: list_all_iff) (meson in_set_dropD)

text \<open>
  Claim C7. Whatever the stream and the hotend offset, every polyline in every layer of
  the two returned tracks has at least two points: the loop commits an open polyline
  only when it holds more than one point.
\<close>

theorem stored_polylines_have_two_points:
  assumes "parse_gcode_file fl lines h = Inr (one, two)"
  shows "\<forall>layer \<in> set one \<union> set two. \<forall>pl \<in> set layer. 2 \<le> length pl"
proof -
  from assms obtain s where r: "run fl h initial_state lines = Inr s"
    and o: "one = drop 1 (one_layers s)" and t: "two = drop 1 (two_layers s)"
    by (auto simp: parse_gcode_file_def split: sum.splits)
  have "stored_ok s" using stored_ok_run[OF stored_ok_initial r] .
  then have "list_all (list_all long_enough) one" "list_all (list_all long_enough) two"
    unfolding o t stored_ok_def by (simp_all add: list_all_drop)
  then show ?thesis
    by (auto simp: list_all_iff long_enough_def)
qed

lemmas parser_defs =
  parse_gcode_file_def step_def strip_comment_def before_motion_def tool_change_def
  is_motion_def motion_def record_move_def did_extrude_def update_e_change_def
  mentions_extrusion_def extrude_point_def travel_point_def initial_state_def Let_def

lemmas float_dec_defs =
  float_dec_def strip_def is_space_def unsigned_dec_def is_digit_def

lemma end_to_end_run:
  "run float_dec 0 initial_state end_to_end_stream =
     Inr \<lparr>one_layers = [[]], two_layers = [],
          one_lines = [[(10, 0, 1 / 5), (10, 10, 1 / 5)]], two_lines = [],
          one_new_line = [(0, 0, 1 / 5)], two_new_line = [],
          current_x = 0, current_y = 0, current_z = 1 / 5,
          last_extruded_z = 1 / 5, last_e = 0, e_change = 2,
          core_switch_save = (0, 0, 0, 0, 0, 0),
          printing = True, printcore = 0\<rparr>"
  by (simp add: end_to_end_stream_def parser_defs float_dec_defs)

lemma two_layer_parse:
  "parse_gcode_file float_dec two_layer_stream 0
     = Inr ([[[(10, 0, 1 / 5), (10, 10, 1 / 5)]]], [])"
  unfolding two_layer_stream_def parse_gcode_file_def run_append end_to_end_run
  by (simp add: parser_defs float_dec_defs)

theorem stored_polylines_have_two_points_witness:
  "parse_gcode_file float_dec two_layer_stream 0
     = Inr ([[[(10, 0, 1 / 5), (10, 10, 1 / 5)]]], [])
   \<and> list_all (list_all (\<lambda>pl. 2 \<le> length pl)) [[[(10::real, 0::real, 1 / 5 :: real), (10, 10, 1 / 5)]]]"
  using stored_polylines_have_two_points[OF two_layer_parse] two_layer_parse
  by simp

text \<open>
  Claim C1, run on the code. On the stream \<open>M205\<close>, \<open>G1 X10 Y0 Z0.2 E1\<close>,
  \<open>G1 X10 Y10 Z0.2 E2\<close>, \<open>G0 X0 Y0 Z0.2\<close> with hotend offset 0 the loop ends with the
  polyline \<open>[[10,0,0.2],[10,10,0.2]]\<close> committed to the layer under construction
  (\<open>one_lines\<close>) and the open polyline seeded with \<open>[0,0,0.2]\<close>, as the claim expects.
  But a layer reaches \<open>one_layers\<close> only when a later extruding move changes the height,
  and nothing flushes \<open>one_lines\<close> at the end of the stream: \<open>one_layers\<close> holds the
  empty first layer alone, which line 271 drops, and the returned primary track is empty.
\<close>

theorem end_to_end_returns_no_layer:
  "run float_dec 0 initial_state end_to_end_stream =
     Inr \<lparr>one_layers = [[]], two_layers = [],
          one_lines = [[(10, 0, 1 / 5), (10, 10, 1 / 5)]], two_lines = [],
          one_new_line = [(0, 0, 1 / 5)], two_new_line = [],
          current_x = 0, current_y = 0, current_z = 1 / 5,
          last_extruded_z = 1 / 5, last_e = 0, e_change = 2,
          core_switch_save = (0, 0, 0, 0, 0, 0),
          printing = True, printcore = 0\<rparr>
   \<and> parse_gcode_file float_dec end_to_end_stream 0 = Inr ([], [])"
  by (simp add: parse_gcode_file_def end_to_end_run)

text \<open>
  Claim C2, run on the code. The moves of \<open>retraction_stream\<close> carry the E values
  1, -2, -1, 0, 2, whose successive differences are +1, -3, +1, +1, +2. The source
  never assigns \<open>last_e\<close> after a move, so \<open>extrusion_dif\<close> is the E operand itself
  (1, -2, -1, 0, 2), the balance runs 1, -2, -3, -3, -1, and the last move is not
  flagged as extruding. The rule of the specification, with the E value of the
  preceding command subtracted, flags it.
\<close>

theorem retraction_flags_of_the_code:
  "extrusion_flags float_dec 0 initial_state retraction_stream
     = Inr [True, False, False, False, False]
   \<and> spec_extrusion_flags 0 0 [1, - 2, - 1, 0, 2] = [True, False, False, False, True]"
  by (simp add: retraction_stream_def move_flag_def parser_defs float_dec_defs)

lemma motion_line_shape:
  assumes "is_motion line"
  shows "\<exists>c rest. line = CHR ''G'' # c # rest"
  using assms unfolding is_motion_def
proof
  assume "take 2 line = ''G0''"
  from take2_eq[OF this] obtain rest where "line = CHR ''G'' # CHR ''0'' # rest" ..
  then show ?thesis by (intro exI)
next
  assume "take 2 line = ''G1''"
  from take2_eq[OF this] obtain rest where "line = CHR ''G'' # CHR ''1'' # rest" ..
  then show ?thesis by (intro exI)
qed

lemma before_motion_motion_line:
  assumes "is_motion line"
  shows "before_motion s line = s"
proof -
  from motion_line_shape[OF assms] obtain c rest where "line = CHR ''G'' # c # rest" by auto
  then show ?thesis by (simp add: before_motion_def tool_change_def)
qed

lemma step_motion_line:
  assumes "is_motion (strip_comment raw)" and "printing s"
  shows "step fl h s raw = motion fl h s (strip_comment raw)"
proof -
  from motion_line_shape[OF assms(1)] have "strip_comment raw \<noteq> []" by auto
  then show ?thesis
    unfolding step_def Let_def before_motion_motion_line[OF assms(1)] using assms by simp
qed

lemma read_parameters_malformed:
  assumes "\<exists>p \<in> set ps. p \<noteq> [] \<and> hd p \<in> {CHR ''X'', CHR ''Y'', CHR ''Z'', CHR ''E''} \<and> fl (tl p) = None"
  shows "read_parameters fl h core ps acc = Inl ValueError"
  using assms
proof (induction fl h core ps acc rule: read_parameters.induct)
  case (1 fl hotend_distance core acc)
  then show ?case by simp
next
  case (2 fl hotend_distance core p ps new_x new_y new_z new_e)
  show ?case
  proof (cases "p \<noteq> [] \<and> hd p \<in> {CHR ''X'', CHR ''Y'', CHR ''Z'', CHR ''E''} \<and> fl (tl p) = None")
    case True
    then show ?thesis by auto
  next
    case False
    with "2.prems" have rest: "\<exists>p \<in> set ps. p \<noteq> [] \<and> hd p \<in> {CHR ''X'', CHR ''Y'', CHR ''Z'', CHR ''E''} \<and> fl (tl p) = None"
      by auto
    show ?thesis
      using "2.IH" rest False
      by (auto split: option.splits)
  qed
qed

lemma step_unrecognised:
  assumes "take 2 (strip_comment raw) \<noteq> ''T0''" and "take 2 (strip_comment raw) \<noteq> ''T1''"
    and "take 4 (strip_comment raw) \<noteq> ''M205''" and "\<not> is_motion (strip_comment raw)"
  shows "step fl h s raw = Inr s"
  using assms by (simp add: step_def before_motion_def tool_change_def Let_def)

text \<open>
  Claim C9, amended. When a line that starts with \<open>G0\<close> or \<open>G1\<close> is processed (the
  parser is printing) and one of its X, Y, Z or E operands is not a number, the whole
  parse fails with the error and returns no tracks, whatever comes before (once that was
  read without error) or after the line. A line whose text, after the comment is
  stripped, starts with none of \<open>T0\<close>, \<open>T1\<close>, \<open>M205\<close>, \<open>G0\<close>, \<open>G1\<close> leaves the
  parser state as it was.
\<close>

theorem malformed_operand_aborts_unknown_ignored:
  "(run fl h initial_state pre = Inr s \<and> printing s \<and> is_motion (strip_comment raw)
      \<and> malformed_operand fl (strip_comment raw)
      \<longrightarrow> parse_gcode_file fl (pre @ raw # post) h = Inl ValueError)
   \<and> (take 2 (strip_comment other) \<noteq> ''T0'' \<and> take 2 (strip_comment other) \<noteq> ''T1''
      \<and> take 4 (strip_comment other) \<noteq> ''M205'' \<and> \<not> is_motion (strip_comment other)
      \<longrightarrow> step fl h s' other = Inr s')"
proof (intro conjI impI)
  assume a: "run fl h initial_state pre = Inr s \<and> printing s \<and> is_motion (strip_comment raw)
      \<and> malformed_operand fl (strip_comment raw)"
  then have m: "motion fl h s (strip_comment raw) = Inl ValueError"
    unfolding malformed_operand_def motion_def
    by (simp add: read_parameters_malformed)
  have "step fl h s raw = Inl ValueError"
    using step_motion_line[of raw s fl h] a m by simp
  with a show "parse_gcode_file fl (pre @ raw # post) h = Inl ValueError"
    by (simp add: parse_gcode_file_def run_append)
next
  assume "take 2 (strip_comment other) \<noteq> ''T0'' \<and> take 2 (strip_comment other) \<noteq> ''T1''
      \<and> take 4 (strip_comment other) \<noteq> ''M205'' \<and> \<not> is_motion (strip_comment other)"
  then show "step fl h s' other = Inr s'"
    using step_unrecognised by blast
qed

theorem malformed_operand_aborts_unknown_ignored_witness:
  "parse_gcode_file float_dec [''M205\<newline>'', ''G1 Xabc Y1\<newline>'', ''G1 X1 Y1 E1\<newline>''] 0
     = Inl ValueError
   \<and> step float_dec 0 (initial_state\<lparr>printing := True\<rparr>) ''M104 S200 ; heat\<newline>''
     = Inr (initial_state\<lparr>printing := True\<rparr>)"
  using malformed_operand_aborts_unknown_ignored
    [where fl = float_dec and h = 0 and pre = "[''M205\<newline>'']"
       and s = "initial_state\<lparr>printing := True\<rparr>" and raw = "''G1 Xabc Y1\<newline>''"
       and post = "[''G1 X1 Y1 E1\<newline>'']" and other = "''M104 S200 ; heat\<newline>''"
       and s' = "initial_state\<lparr>printing := True\<rparr>"]
  by (simp add: malformed_operand_def parser_defs float_dec_defs)

text \<open>
  Claim C9 as stated fails twice. An operand with another letter is never read, so the
  malformed \<open>Fabc\<close> does not stop the parse. And the commands are recognised by their
  first characters: \<open>G10\<close> is not \<open>G0\<close> or \<open>G1\<close>, yet it runs the motion branch,
  which here commits the open polyline and starts a new one.
\<close>

theorem unread_operand_and_prefix_match:
  "float_dec ''abc'' = None
   \<and> parse_gcode_file float_dec [''M205\<newline>'', ''G1 Fabc X1\<newline>''] 0 = Inr ([], [])
   \<and> step float_dec 0 open_polyline_state ''G10\<newline>''
       = Inr (open_polyline_state
               \<lparr>one_lines := [[(10, 0, 1 / 5), (10, 10, 1 / 5)]],
                one_new_line := [(10, 10, 1 / 5)]\<rparr>)
   \<and> open_polyline_state
         \<lparr>one_lines := [[(10, 0, 1 / 5), (10, 10, 1 / 5)]],
          one_new_line := [(10, 10, 1 / 5)]\<rparr>
       \<noteq> open_polyline_state"
  by (simp add: open_polyline_state_def parser_defs float_dec_defs)

text \<open>
  \<open>last_e\<close> is never assigned after a move: it keeps its initial value 0 in the active
  and in the saved registers, whatever the stream.
\<close>

lemma last_e_tool_change:
  assumes "last_e s = 0" and "fst (snd (snd (snd (snd (core_switch_save s))))) = 0"
  shows "last_e (tool_change s line) = 0
       \<and> fst (snd (snd (snd (snd (core_switch_save (tool_change s line)))))) = 0"
  using assms by (auto simp add: tool_change_def Let_def split: prod.splits)

lemma last_e_before_motion:
  assumes "last_e s = 0" and "fst (snd (snd (snd (snd (core_switch_save s))))) = 0"
  shows "last_e (before_motion s line) = 0
       \<and> fst (snd (snd (snd (snd (core_switch_save (before_motion s line)))))) = 0"
  using last_e_tool_change[OF assms, of line] by (simp add: before_motion_def Let_def)

lemma last_e_record_move:
  "last_e (record_move s line x y z e) = last_e s
   \<and> core_switch_save (record_move s line x y z e) = core_switch_save s"
  by (simp add: record_move_def extrude_point_def travel_point_def Let_def)

lemma last_e_motion:
  assumes "motion fl h s line = Inr s'"
  shows "last_e s' = last_e s \<and> core_switch_save s' = core_switch_save s"
proof -
  from assms obtain x y z e where "s' = record_move s line x y z e"
    by (auto simp: motion_def split: sum.splits prod.splits)
  then show ?thesis by (simp add: last_e_record_move)
qed

lemma last_e_step:
  assumes st: "step fl h s raw = Inr s'" and "last_e s = 0"
    and "fst (snd (snd (snd (snd (core_switch_save s))))) = 0"
  shows "last_e s' = 0 \<and> fst (snd (snd (snd (snd (core_switch_save s'))))) = 0"
proof (cases "strip_comment raw = []")
  case True
  with st have "s' = s" by (simp add: step_def)
  with assms show ?thesis by simp
next
  case False
  let ?s1 = "before_motion s (strip_comment raw)"
  note b = last_e_before_motion[OF assms(2,3), of "strip_comment raw"]
  show ?thesis
  proof (cases "printing ?s1 \<and> is_motion (strip_comment raw)")
    case True
    with False st have "motion fl h ?s1 (strip_comment raw) = Inr s'"
      by (simp add: step_def Let_def)
    from last_e_motion[OF this] b show ?thesis by simp
  next
    case no: False
    with False st have "s' = ?s1" by (auto simp: step_def Let_def)
    with b show ?thesis by simp
  qed
qed

theorem last_e_stays_zero:
  assumes "run fl h s lines = Inr s'" and "last_e s = 0"
    and "fst (snd (snd (snd (snd (core_switch_save s))))) = 0"
  shows "last_e s' = 0 \<and> fst (snd (snd (snd (snd (core_switch_save s'))))) = 0"
  using assms
proof (induction lines arbitrary: s)
  case Nil
  then show ?case by simp
next
  case (Cons raw rest)
  from Cons.prems(1) obtain s1 where s1: "step fl h s raw = Inr s1" and r: "run fl h s1 rest = Inr s'"
    by (auto split: sum.splits)
  from last_e_step[OF s1 Cons.prems(2,3)] Cons.IH[OF r] show ?case by blast
qed

theorem last_e_stays_zero_witness:
  "last_e initial_state = 0
   \<and> (\<exists>s'. run float_dec 0 initial_state end_to_end_stream = Inr s'
          \<and> last_e s' = 0 \<and> e_change s' = 2)"
  using last_e_stays_zero[OF end_to_end_run] end_to_end_run
  by (simp add: initial_state_def)

text \<open>
  Claim C10. An extruding move whose z differs from the last extruded z closes the layer
  under construction as it stands and empties the open polyline of the active hotend:
  the points the open polyline held go neither into the closed layer nor into the new
  one, and the new open polyline holds the point of this move alone. The other hotend's
  lists are untouched.
\<close>

theorem layer_change_discards_open_polyline:
  assumes "printing s" and "is_motion (strip_comment raw)"
    and "read_parameters fl h (printcore s) (drop 1 (split_on CHR '' '' (strip_comment raw)))
           (current_x s, current_y s, current_z s, last_e s) = Inr (new_x, new_y, new_z, new_e)"
    and "did_extrude s (strip_comment raw) new_e"
    and "new_z \<noteq> last_extruded_z s"
  shows "\<exists>s'. step fl h s raw = Inr s' \<and>
           (if printcore s = 0
            then one_layers s' = one_layers s @ [one_lines s] \<and> one_lines s' = []
                 \<and> one_new_line s' = [(new_x, new_y, new_z)]
                 \<and> two_layers s' = two_layers s \<and> two_lines s' = two_lines s
                 \<and> two_new_line s' = two_new_line s
            else two_layers s' = two_layers s @ [two_lines s] \<and> two_lines s' = []
                 \<and> two_new_line s' = [(new_x, new_y, new_z)]
                 \<and> one_layers s' = one_layers s \<and> one_lines s' = one_lines s
                 \<and> one_new_line s' = one_new_line s)"
proof -
  let ?s' = "record_move s (strip_comment raw) new_x new_y new_z new_e"
  have "step fl h s raw = Inr ?s'"
    unfolding step_motion_line[OF assms(2,1)] motion_def assms(3) by simp
  moreover have "?s' = (extrude_point (s\<lparr>e_change := update_e_change s (strip_comment raw) new_e\<rparr>)
      (new_x, new_y, new_z))\<lparr>current_x := new_x, current_y := new_y, current_z := new_z\<rparr>"
    using assms(4) by (simp add: record_move_def Let_def)
  ultimately show ?thesis
    using assms(5) by (simp add: extrude_point_def Let_def)
qed


theorem layer_change_discards_open_polyline_witness:
  "run float_dec 0 initial_state (take 3 end_to_end_stream) = Inr open_polyline_state
   \<and> (\<exists>s'. step float_dec 0 open_polyline_state ''G1 X5 Y5 Z0.4 E3\<newline>'' = Inr s'
          \<and> one_layers s' = [[], []] \<and> one_lines s' = []
          \<and> one_new_line s' = [(5, 5, 2 / 5)])"
  using layer_change_discards_open_polyline
    [where fl = float_dec and h = 0 and s = open_polyline_state
       and raw = "''G1 X5 Y5 Z0.4 E3\<newline>''" and new_x = 5 and new_y = 5
       and new_z = "2 / 5" and new_e = 3]
  by (simp add: open_polyline_state_def end_to_end_stream_def parser_defs float_dec_defs)


section \<open>Properties of the ribbon mesh\<close>





lemma raise_point_z: "raise_point h (Some x, Some y, z) = (Some x, Some y, z + h)"
  by (simp add: raise_point_def bz_def)






section \<open>Properties of the offsets\<close>


lemma rotate_minus_quarter: "rotate_vector (x, y) (- pi / 2) = (y, - x)"
  by (simp add: rotate_vector_def)






lemma exact_negatives_iff:
  "exact_negatives (last_normal_at line i) (next_normal_at line i)
     \<longleftrightarrow> xy (line ! (i - 1)) = xy (line ! (i + 1))"
  by (auto simp add: exact_negatives_def last_normal_at_def next_normal_at_def
      rotate_vector_def Let_def xy_def)

lemma combined_normal_chord:
  assumes "xy (line ! (i - 1)) \<noteq> xy (line ! (i + 1))"
  shows "combined_normal line i
           = rotate_vector (xy_diff (line ! (i + 1)) (line ! (i - 1))) (pi / 2)"
  using assms unfolding combined_normal_def Let_def exact_negatives_iff
  by (simp add: last_normal_at_def next_normal_at_def rotate_vector_def xy_diff_def Let_def)

lemma combined_normal_reversal:
  assumes "xy (line ! (i - 1)) = xy (line ! (i + 1))"
  shows "combined_normal line i
           = rotate_vector (xy_diff (line ! i) (line ! (i - 1))) (pi / 2)"
  using assms unfolding combined_normal_def Let_def exact_negatives_iff
  by (simp add: last_normal_at_def xy_diff_def Let_def)


















lemmas offset_defs =
  get_corner_normals_def first_normal_def end_normal_def corner_points_def
  corner_normal_def interior_magnitude_def combined_normal_def exact_negatives_def
  last_normal_at_def next_normal_at_def scale_vector_def rotate_vector_def float_div_def
  add_vector_bi_def px_def py_def pz_def Let_def






text \<open>
  Claim C4, run on the code. At the middle point of three equal points both difference
  vectors are zero: the exact-equality test succeeds, the normal taken is the zero
  vector and the normalisation divides by the magnitude 0. (With floats the same
  values arise: every product and sum is of zeros.)
\<close>

theorem triple_point_divides_by_zero:
  "exact_negatives (last_normal_at triple_point 1) (next_normal_at triple_point 1)
   \<and> combined_normal triple_point 1 = (0, 0)
   \<and> interior_magnitude triple_point 1 = 0"
  by (simp add: triple_point_def offset_defs)

text \<open>
  In real arithmetic the divisor of the normalisation is zero exactly when all three
  points coincide in x and y.
\<close>

lemma interior_magnitude_zero_iff:
  "interior_magnitude line i = 0
     \<longleftrightarrow> xy (line ! (i - 1)) = xy (line ! i) \<and> xy (line ! (i + 1)) = xy (line ! i)"
proof (cases "xy (line ! (i - 1)) = xy (line ! (i + 1))")
  case True
  have "interior_magnitude line i = 0 \<longleftrightarrow> xy (line ! i) = xy (line ! (i - 1))"
    unfolding interior_magnitude_def Let_def combined_normal_reversal[OF True]
    by (auto simp add: rotate_vector_def xy_diff_def xy_def)
  with True show ?thesis by auto
next
  case False
  have "interior_magnitude line i \<noteq> 0"
    unfolding interior_magnitude_def Let_def combined_normal_chord[OF False]
    using False by (auto simp add: rotate_vector_def xy_diff_def xy_def)
  with False show ?thesis by auto
qed

section \<open>Properties of the object mesh\<close>

lemma nozzle_width_ignored:
  "build_object_mesh (self\<lparr>nozzle_width := a\<rparr>) main_layers secondary_layers height
     = build_object_mesh self main_layers secondary_layers height"
  by (simp add: build_object_mesh_def Let_def split: sum.splits prod.splits)

lemma unit_ribbon_mesh:
  "build_mesh_from_points unit_ribbon (1 / 5)
     = Inr (unit_ribbon @ map (raise_point (1 / 5)) unit_ribbon, unit_ribbon_triangles)"
  by (simp add: build_mesh_from_points_def unit_ribbon_def unit_ribbon_triangles_def
      mesh_loop.simps)

lemma segment_offsets:
  "get_corner_normals [(0, 0, 0), (1, 0, 0)] (1 / 5) = unit_ribbon"
  by (simp add: unit_ribbon_def offset_defs)

text \<open>
  Claim C8, run on the code. \<open>build_object_mesh\<close> passes the literal 0.2 to the offset
  generator and never reads \<open>nozzle_width\<close>: a WatchDog with a 0.8 mm nozzle (half
  width 0.4) still offsets the segment from (0,0,0) to (1,0,0) by 0.2 to each side.
\<close>

theorem wide_nozzle_offsets_by_fixed_width:
  "nozzle_width wide_nozzle_dog / 2 = 0.4
   \<and> build_object_mesh wide_nozzle_dog [[[(0, 0, 0), (1, 0, 0)]]] [] 1
       = Inr ([(Some 0, Some 0.2, 0), (Some 0, Some (- 0.2), 0),
               (Some 1, Some 0.2, 0), (Some 1, Some (- 0.2), 0),
               (Some 0, Some 0.2, 0.2), (Some 0, Some (- 0.2), 0.2),
               (Some 1, Some 0.2, 0.2), (Some 1, Some (- 0.2), 0.2)],
              unit_ribbon_triangles,
              replicate 8 [0, 0, 1])"
  by (simp add: build_object_mesh_def slice_to_def segment_offsets unit_ribbon_mesh)
     (simp add: wide_nozzle_dog_def unit_ribbon_def raise_point_def bz_def numeral_eq_Suc)

end
